theory Spec2Isabelle
  imports Main "HOL-Library.Word"
begin

unbundle bit_operations_syntax

section \<open>The Brownian path sampler of \<^verbatim>\<open>diffrax/_brownian/path.py\<close>\<close>

text \<open>
  The module defines one class, \<^verbatim>\<open>UnsafeBrownianPath\<close>, with a constructor that
  validates a shape descriptor and an \<^verbatim>\<open>evaluate\<close> method that derives a per-query
  key from the two endpoints and samples one array per leaf of the descriptor.
  The class is embedded as a record, its constructor and methods as functions; a raised
  exception is the \<open>Inl\<close> branch of a sum. The numeric library the class calls
  (\<^verbatim>\<open>jax.numpy\<close>, \<^verbatim>\<open>jax.random\<close>, \<^verbatim>\<open>jax.tree_util\<close>) is modelled by its documented
  contract; the primitives whose values are pseudorandom or rounded are parameters.
\<close>

subsection \<open>Element kinds\<close>

text \<open>
  The dtypes of numpy, and the abstract kinds \<^verbatim>\<open>issubdtype\<close> tests against. In numpy's
  hierarchy \<^verbatim>\<open>inexact\<close> has the two children \<^verbatim>\<open>floating\<close> and \<^verbatim>\<open>complexfloating\<close>.
\<close>

datatype dtype =
    Bool
  | Int8 | Int16 | Int32 | Int64
  | UInt8 | UInt16 | UInt32 | UInt64
  | Float16 | BFloat16 | Float32 | Float64
  | Complex64 | Complex128

datatype abstract_kind = Number | Integer | Inexact | Floating | ComplexFloating

fun is_floating :: "dtype \<Rightarrow> bool" where
  "is_floating Float16 = True"
| "is_floating BFloat16 = True"
| "is_floating Float32 = True"
| "is_floating Float64 = True"
| "is_floating _ = False"

fun is_complexfloating :: "dtype \<Rightarrow> bool" where
  "is_complexfloating Complex64 = True"
| "is_complexfloating Complex128 = True"
| "is_complexfloating _ = False"

fun is_integer :: "dtype \<Rightarrow> bool" where
  "is_integer Int8 = True"
| "is_integer Int16 = True"
| "is_integer Int32 = True"
| "is_integer Int64 = True"
| "is_integer UInt8 = True"
| "is_integer UInt16 = True"
| "is_integer UInt32 = True"
| "is_integer UInt64 = True"
| "is_integer _ = False"

fun issubdtype :: "dtype \<Rightarrow> abstract_kind \<Rightarrow> bool" where
  "issubdtype d Floating = is_floating d"
| "issubdtype d ComplexFloating = is_complexfloating d"
| "issubdtype d Inexact = (is_floating d \<or> is_complexfloating d)"
| "issubdtype d Integer = is_integer d"
| "issubdtype d Number = (is_integer d \<or> is_floating d \<or> is_complexfloating d)"

subsection \<open>Structured values\<close>

text \<open>
  A PyTree is a leaf or a container node with ordered children. The kind of a node (and,
  for a dictionary, its keys) is part of the tree's structure. \<^verbatim>\<open>tree_leaves\<close> lists the
  leaves from left to right.
\<close>

datatype node_kind = TupleNode | ListNode | DictNode "string list" | NoneNode

datatype 'a pytree = Leaf 'a | Node node_kind "'a pytree list"

fun tree_leaves :: "'a pytree \<Rightarrow> 'a list" where
  "tree_leaves (Leaf x) = [x]"
| "tree_leaves (Node k cs) = concat (map tree_leaves cs)"

text \<open>\<^verbatim>\<open>jax.ShapeDtypeStruct\<close>: the dimensions and the dtype of an array, without data.\<close>

record shape_dtype_struct =
  sds_shape :: "nat list"
  sds_dtype :: dtype

subsection \<open>Construction\<close>

datatype error = ValueError string

text \<open>
  The constructor's first argument is a tuple of integers (the dimensions of one array)
  or a PyTree of \<^verbatim>\<open>ShapeDtypeStruct\<close>s.
\<close>

datatype shape_arg = IntTuple "nat list" | ShapeTree "shape_dtype_struct pytree"

record platform =
  enable_x64 :: bool

text \<open>
  Modelled from the spec: \<^verbatim>\<open>default_floating_dtype\<close> is imported from \<^verbatim>\<open>_misc\<close>, which
  is not among the sources. The spec says that the dtype "defaults to the platform's
  default floating-point kind"; the platform has two, single and double precision.
\<close>

definition default_floating_dtype :: "platform \<Rightarrow> dtype" where
  "default_floating_dtype pf = (if enable_x64 pf then Float64 else Float32)"

text \<open>
  Modelled from the spec: \<^verbatim>\<open>is_tuple_of_ints\<close> is imported from \<^verbatim>\<open>_misc\<close>. The spec
  distinguishes "a single (dimensions, dtype) pair" with the dtype omitted from "an
  arbitrarily nested structured descriptor". The empty tuple is a tuple of integers, so the
  descriptor that is an empty tuple node is one as well.
\<close>

fun is_tuple_of_ints :: "shape_arg \<Rightarrow> bool" where
  "is_tuple_of_ints (IntTuple ds) = True"
| "is_tuple_of_ints (ShapeTree t) = (t = Node TupleNode [])"

fun tuple_items :: "shape_arg \<Rightarrow> nat list" where
  "tuple_items (IntTuple ds) = ds"
| "tuple_items (ShapeTree t) = []"

fun given_tree :: "shape_arg \<Rightarrow> shape_dtype_struct pytree" where
  "given_tree (ShapeTree t) = t"
| "given_tree (IntTuple ds) = Node TupleNode []"

record 'k unsafe_brownian_path =
  shape :: "shape_dtype_struct pytree"
  key :: 'k

definition dtype_error :: error where
  "dtype_error = ValueError ''UnsafeBrownianPath dtypes all have to be floating-point.''"

text \<open>
  \<^verbatim>\<open>__init__\<close>: store the descriptor (a tuple of integers becomes one leaf of the default
  floating dtype) and the key, then raise if any leaf's dtype is not a subdtype of
  \<^verbatim>\<open>jnp.inexact\<close>.
\<close>

definition init :: "platform \<Rightarrow> shape_arg \<Rightarrow> 'k \<Rightarrow> error + 'k unsafe_brownian_path" where
  "init pf shape_in key_in =
     (let self = \<lparr> shape =
                     (if is_tuple_of_ints shape_in
                      then Leaf \<lparr> sds_shape = tuple_items shape_in,
                                  sds_dtype = default_floating_dtype pf \<rparr>
                      else given_tree shape_in),
                   key = key_in \<rparr>
      in if list_ex (\<lambda>x. \<not> issubdtype (sds_dtype x) Inexact) (tree_leaves (shape self))
         then Inl dtype_error
         else Inr self)"

text \<open>The positions, in \<^verbatim>\<open>tree_leaves\<close> order, of the leaves that fail the check.\<close>

definition offending_leaves :: "shape_dtype_struct pytree \<Rightarrow> nat list" where
  "offending_leaves t =
     filter (\<lambda>i. \<not> issubdtype (sds_dtype (tree_leaves t ! i)) Inexact)
       [0 ..< length (tree_leaves t)]"

subsection \<open>Endpoints\<close>

text \<open>
  An endpoint is a real scalar: a Python integer (the literal \<^verbatim>\<open>0\<close> that \<^verbatim>\<open>evaluate\<close>
  inserts is one) or a single-precision float, given by its 32 bits. The order and the
  equality of floats are those of IEEE 754, read off the bits: a NaN (exponent all ones,
  fraction not zero) is unordered and unequal to everything, and otherwise floats compare
  as sign-magnitude integers, so that \<open>+0.0\<close> and \<open>-0.0\<close> are equal.
\<close>

datatype real_scalar = PyInt int | F32 "32 word"

type_synonym int32 = "32 word"

definition f32_magnitude :: "32 word \<Rightarrow> 32 word" where
  "f32_magnitude w = w AND 0x7FFFFFFF"

definition f32_is_nan :: "32 word \<Rightarrow> bool" where
  "f32_is_nan w = (0x7F800000 < f32_magnitude w)"

definition f32_is_zero :: "32 word \<Rightarrow> bool" where
  "f32_is_zero w = (f32_magnitude w = 0)"

definition f32_order_key :: "32 word \<Rightarrow> int" where
  "f32_order_key w = (if bit w 31 then - uint (f32_magnitude w) else uint (f32_magnitude w))"

definition f32_lt :: "32 word \<Rightarrow> 32 word \<Rightarrow> bool" where
  "f32_lt a b = (\<not> f32_is_nan a \<and> \<not> f32_is_nan b \<and> f32_order_key a < f32_order_key b)"

definition f32_eq :: "32 word \<Rightarrow> 32 word \<Rightarrow> bool" where
  "f32_eq a b = (\<not> f32_is_nan a \<and> \<not> f32_is_nan b \<and> f32_order_key a = f32_order_key b)"

definition f32_negative :: "32 word \<Rightarrow> bool" where
  "f32_negative w = f32_lt w 0"

text \<open>
  Modelled from the spec: \<^verbatim>\<open>force_bitcast_convert_type\<close> is imported from \<^verbatim>\<open>_misc\<close>,
  which is not among the sources. The spec: "reinterpret the endpoint's bit pattern as a
  32-bit signed integer without numeric conversion", "punning a 32-bit float
  representation as a 32-bit integer". Both calls ask for \<^verbatim>\<open>jnp.int32\<close>. The result is the
  32-bit integer with the same bits (\<open>sint\<close> reads its value); an integer endpoint is
  already the bits of an integer.
\<close>

fun force_bitcast_convert_type :: "real_scalar \<Rightarrow> int32" where
  "force_bitcast_convert_type (F32 w) = w"
| "force_bitcast_convert_type (PyInt i) = word_of_int i"

subsection \<open>The numeric backend\<close>

text \<open>
  An array element is not-a-number or a value. The configuration of the backend and its
  primitives whose results are pseudorandom (\<^verbatim>\<open>jax.random\<close>) or rounded (\<^verbatim>\<open>jax.numpy\<close>)
  are the fields of a record:
  \<^item> \<open>config\<close> is the platform the calls run on (whether 64-bit dtypes are enabled);
  \<^item> \<open>fold_in\<close> is \<^verbatim>\<open>jax.random.fold_in\<close>;
  \<^item> \<open>split_key b k n i\<close> is entry \<open>i\<close> of \<^verbatim>\<open>jax.random.split(k, n)\<close>;
  \<^item> \<open>normal_val b k s d i\<close> is entry \<open>i\<close>, in row-major order, of
    \<^verbatim>\<open>jax.random.normal(k, s, d)\<close>;
  \<^item> \<open>f32_of_int\<close> and \<open>f32_sub\<close> round an integer and a difference to single precision;
  \<^item> \<open>sqrt_val\<close> is the rounded square root of a scalar that is neither negative nor NaN;
  \<^item> \<open>cast_val\<close> converts a value to a dtype, \<open>cast_nan\<close> is what a NaN becomes in a dtype
    that has none;
  \<^item> \<open>mul_val\<close> is the product of two values (NaN for zero times infinity).
\<close>

datatype 'v elem = NaN | Val 'v

text \<open>
  \<^verbatim>\<open>jax.dtypes.canonicalize_dtype\<close>: while 64-bit dtypes are disabled (the default), a
  64-bit dtype stands for its 32-bit counterpart. \<^verbatim>\<open>jax.random.normal\<close> and \<^verbatim>\<open>.astype\<close>
  canonicalize the dtype they are given.
\<close>

fun narrow_dtype :: "dtype \<Rightarrow> dtype" where
  "narrow_dtype Int64 = Int32"
| "narrow_dtype UInt64 = UInt32"
| "narrow_dtype Float64 = Float32"
| "narrow_dtype Complex128 = Complex64"
| "narrow_dtype d = d"

definition canonicalize_dtype :: "platform \<Rightarrow> dtype \<Rightarrow> dtype" where
  "canonicalize_dtype pf d = (if enable_x64 pf then d else narrow_dtype d)"

fun is_64bit :: "dtype \<Rightarrow> bool" where
  "is_64bit Int64 = True"
| "is_64bit UInt64 = True"
| "is_64bit Float64 = True"
| "is_64bit Complex128 = True"
| "is_64bit _ = False"

record ('k, 'v) backend =
  config :: platform
  fold_in :: "'k \<Rightarrow> int32 \<Rightarrow> 'k"
  split_key :: "'k \<Rightarrow> nat \<Rightarrow> nat \<Rightarrow> 'k"
  normal_val :: "'k \<Rightarrow> nat list \<Rightarrow> dtype \<Rightarrow> nat \<Rightarrow> 'v"
  f32_of_int :: "int \<Rightarrow> 32 word"
  f32_sub :: "32 word \<Rightarrow> 32 word \<Rightarrow> 32 word"
  sqrt_val :: "real_scalar \<Rightarrow> 'v"
  cast_val :: "'v \<Rightarrow> dtype \<Rightarrow> 'v"
  cast_nan :: "dtype \<Rightarrow> 'v"
  mul_val :: "'v \<Rightarrow> 'v \<Rightarrow> 'v elem"

record 'v array =
  arr_shape :: "nat list"
  arr_dtype :: dtype
  arr_data :: "'v elem list"

text \<open>\<^verbatim>\<open>jax.random.split(key, n)\<close>: \<open>n\<close> keys.\<close>

definition jr_split :: "('k, 'v) backend \<Rightarrow> 'k \<Rightarrow> nat \<Rightarrow> 'k list" where
  "jr_split b k n = map (split_key b k n) [0 ..< n]"

text \<open>
  \<^verbatim>\<open>jax.random.normal(key, shape, dtype)\<close>: an array of that shape and of the canonical
  form of that dtype.
\<close>

definition jr_normal :: "('k, 'v) backend \<Rightarrow> 'k \<Rightarrow> nat list \<Rightarrow> dtype \<Rightarrow> 'v array" where
  "jr_normal b k s d =
     (let d' = canonicalize_dtype (config b) d
      in \<lparr> arr_shape = s, arr_dtype = d',
           arr_data = map (\<lambda>i. Val (normal_val b k s d' i)) [0 ..< prod_list s] \<rparr>)"

text \<open>
  Arithmetic on endpoints. Two Python integers subtract exactly; otherwise an integer
  operand is converted to single precision (the integer 0 to \<open>+0.0\<close>) and the floats are
  subtracted. Comparison promotes the same way.
\<close>

fun to_f32 :: "('k, 'v) backend \<Rightarrow> real_scalar \<Rightarrow> 32 word" where
  "to_f32 b (F32 w) = w"
| "to_f32 b (PyInt i) = (if i = 0 then 0 else f32_of_int b i)"

fun sub_scalar :: "('k, 'v) backend \<Rightarrow> real_scalar \<Rightarrow> real_scalar \<Rightarrow> real_scalar" where
  "sub_scalar b (PyInt i) (PyInt j) = PyInt (i - j)"
| "sub_scalar b x y = F32 (f32_sub b (to_f32 b x) (to_f32 b y))"

fun scalar_lt :: "('k, 'v) backend \<Rightarrow> real_scalar \<Rightarrow> real_scalar \<Rightarrow> bool" where
  "scalar_lt b (PyInt i) (PyInt j) = (i < j)"
| "scalar_lt b x y = f32_lt (to_f32 b x) (to_f32 b y)"

fun scalar_negative :: "real_scalar \<Rightarrow> bool" where
  "scalar_negative (PyInt i) = (i < 0)"
| "scalar_negative (F32 w) = f32_negative w"

fun scalar_is_nan :: "real_scalar \<Rightarrow> bool" where
  "scalar_is_nan (PyInt i) = False"
| "scalar_is_nan (F32 w) = f32_is_nan w"

text \<open>
  \<^verbatim>\<open>jnp.sqrt\<close> of a scalar: NaN for a NaN and for a negative number (\<open>-0.0\<close> is not
  negative), the rounded root otherwise.
\<close>

definition jnp_sqrt :: "('k, 'v) backend \<Rightarrow> real_scalar \<Rightarrow> 'v elem" where
  "jnp_sqrt b s = (if scalar_is_nan s \<or> scalar_negative s then NaN else Val (sqrt_val b s))"

text \<open>
  \<^verbatim>\<open>.astype(dtype)\<close> on a scalar converts to the canonical form of the dtype: a NaN stays
  one in every dtype that has NaNs.
\<close>

fun astype :: "('k, 'v) backend \<Rightarrow> 'v elem \<Rightarrow> dtype \<Rightarrow> 'v elem" where
  "astype b NaN d =
     (if issubdtype (canonicalize_dtype (config b) d) Inexact
      then NaN
      else Val (cast_nan b (canonicalize_dtype (config b) d)))"
| "astype b (Val v) d = Val (cast_val b v (canonicalize_dtype (config b) d))"

text \<open>The product of two elements: NaN as soon as one factor is.\<close>

fun elem_mul :: "('k, 'v) backend \<Rightarrow> 'v elem \<Rightarrow> 'v elem \<Rightarrow> 'v elem" where
  "elem_mul b (Val x) (Val y) = mul_val b x y"
| "elem_mul b _ _ = NaN"

text \<open>
  \<^verbatim>\<open>array * scalar\<close>, for a scalar of the array's dtype (here both have the canonical
  form of the leaf's dtype): the scalar is broadcast, the product is taken entry by entry,
  and shape and dtype are the array's.
\<close>

definition array_times :: "('k, 'v) backend \<Rightarrow> 'v array \<Rightarrow> 'v elem \<Rightarrow> 'v array" where
  "array_times b a c =
     \<lparr> arr_shape = arr_shape a, arr_dtype = arr_dtype a,
       arr_data = map (\<lambda>x. elem_mul b x c) (arr_data a) \<rparr>"

subsection \<open>Tree utilities\<close>

text \<open>
  The structure of a tree (\<^verbatim>\<open>jtu.tree_structure\<close>) is the tree with its leaves blanked.
  \<^verbatim>\<open>jtu.tree_unflatten\<close> fills a structure with leaves from left to right and raises unless
  their number is the structure's.
\<close>

definition tree_structure :: "'a pytree \<Rightarrow> unit pytree" where
  "tree_structure t = map_pytree (\<lambda>_. ()) t"

fun unflatten_from :: "unit pytree \<Rightarrow> 'a list \<Rightarrow> ('a pytree \<times> 'a list) option"
  and unflatten_children :: "unit pytree list \<Rightarrow> 'a list \<Rightarrow> ('a pytree list \<times> 'a list) option"
where
  "unflatten_from (Leaf u) [] = None"
| "unflatten_from (Leaf u) (x # xs) = Some (Leaf x, xs)"
| "unflatten_from (Node k cs) xs =
     (case unflatten_children cs xs of
        None \<Rightarrow> None
      | Some (rs, rest) \<Rightarrow> Some (Node k rs, rest))"
| "unflatten_children [] xs = Some ([], xs)"
| "unflatten_children (c # cs) xs =
     (case unflatten_from c xs of
        None \<Rightarrow> None
      | Some (r, rest) \<Rightarrow>
          (case unflatten_children cs rest of
             None \<Rightarrow> None
           | Some (rs, rest') \<Rightarrow> Some (r # rs, rest')))"

definition leaf_count_error :: error where
  "leaf_count_error = ValueError ''Wrong number of leaves for PyTreeDef.''"

definition tree_unflatten :: "unit pytree \<Rightarrow> 'a list \<Rightarrow> error + 'a pytree" where
  "tree_unflatten treedef leaves =
     (case unflatten_from treedef leaves of
        Some (t, []) \<Rightarrow> Inr t
      | _ \<Rightarrow> Inl leaf_count_error)"

text \<open>
  Modelled from the spec: \<^verbatim>\<open>split_by_tree\<close> is imported from \<^verbatim>\<open>_misc\<close>, which is not
  among the sources. The spec: "traverse the descriptor in a fixed, deterministic order
  and deterministically derive one independent sub-seed per leaf", from the primitive
  "split(seed, n) -> n independent seeds"; the result is a "tree of sub-seeds isomorphic
  to [the] descriptor".
\<close>

definition split_by_tree :: "('k, 'v) backend \<Rightarrow> 'k \<Rightarrow> 'a pytree \<Rightarrow> error + 'k pytree" where
  "split_by_tree b k tree =
     (let treedef = tree_structure tree
      in tree_unflatten treedef (jr_split b k (length (tree_leaves treedef))))"

text \<open>
  \<^verbatim>\<open>jtu.tree_map(f, tree, rest)\<close> for two trees: \<open>f\<close> is applied to the leaves pairwise, and
  the call raises when the second tree has not the structure of the first.
\<close>

definition structure_error :: error where
  "structure_error = ValueError ''Tree structures do not match.''"

fun tree_map :: "('a \<Rightarrow> 'b \<Rightarrow> 'c) \<Rightarrow> 'a pytree \<Rightarrow> 'b pytree \<Rightarrow> error + 'c pytree"
  and tree_map_children ::
    "('a \<Rightarrow> 'b \<Rightarrow> 'c) \<Rightarrow> 'a pytree list \<Rightarrow> 'b pytree list \<Rightarrow> error + 'c pytree list"
where
  "tree_map f (Leaf x) (Leaf y) = Inr (Leaf (f x y))"
| "tree_map f (Node k cs) (Node k' ds) =
     (if k = k'
      then (case tree_map_children f cs ds of
              Inl e \<Rightarrow> Inl e
            | Inr rs \<Rightarrow> Inr (Node k rs))
      else Inl structure_error)"
| "tree_map f (Leaf x) (Node k' ds) = Inl structure_error"
| "tree_map f (Node k cs) (Leaf y) = Inl structure_error"
| "tree_map_children f [] [] = Inr []"
| "tree_map_children f (c # cs) (d # ds) =
     (case tree_map f c d of
        Inl e \<Rightarrow> Inl e
      | Inr r \<Rightarrow>
          (case tree_map_children f cs ds of
             Inl e \<Rightarrow> Inl e
           | Inr rs \<Rightarrow> Inr (r # rs)))"
| "tree_map_children f [] (d # ds) = Inl structure_error"
| "tree_map_children f (c # cs) [] = Inl structure_error"

subsection \<open>Evaluation\<close>

text \<open>
  \<^verbatim>\<open>eqxi.nondifferentiable\<close> returns its argument; it only forbids differentiation.
\<close>

definition nondifferentiable :: "'a \<Rightarrow> 'a" where
  "nondifferentiable x = x"

text \<open>
  \<^verbatim>\<open>_evaluate_leaf\<close>: a standard-normal array of the leaf's shape and dtype, times the
  square root of \<^verbatim>\<open>t1 - t0\<close> converted to the leaf's dtype.
\<close>

definition evaluate_leaf ::
  "('k, 'v) backend \<Rightarrow> real_scalar \<Rightarrow> real_scalar \<Rightarrow> 'k \<Rightarrow> shape_dtype_struct \<Rightarrow> 'v array"
where
  "evaluate_leaf b t0 t1 k s =
     array_times b (jr_normal b k (sds_shape s) (sds_dtype s))
       (astype b (jnp_sqrt b (sub_scalar b t1 t0)) (sds_dtype s))"

text \<open>
  \<^verbatim>\<open>evaluate(t0, t1=None, left=True)\<close>. The flag is deleted first. With \<^verbatim>\<open>t1\<close> omitted
  the endpoints become the integer \<^verbatim>\<open>0\<close> and \<^verbatim>\<open>t0\<close>. Both endpoints are reinterpreted as
  32-bit integers and folded into the key, the key is split over the descriptor, and the
  leaves are sampled.
\<close>

definition evaluate ::
  "('k, 'v) backend \<Rightarrow> 'k unsafe_brownian_path \<Rightarrow> real_scalar \<Rightarrow> real_scalar option \<Rightarrow> bool
     \<Rightarrow> error + 'v array pytree"
where
  "evaluate b self t0_in t1_in left =
     (let (t0, t1) = (case t1_in of None \<Rightarrow> (PyInt 0, t0_in) | Some t \<Rightarrow> (t0_in, t));
          t0 = nondifferentiable t0;
          t1 = nondifferentiable t1;
          t0' = force_bitcast_convert_type t0;
          t1' = force_bitcast_convert_type t1;
          k = fold_in b (key self) t0';
          k = fold_in b k t1'
      in case split_by_tree b k (shape self) of
           Inl e \<Rightarrow> Inl e
         | Inr keys \<Rightarrow> tree_map (\<lambda>k s. evaluate_leaf b t0 t1 k s) keys (shape self))"

subsection \<open>The algorithm in the spec's words\<close>

text \<open>
  The spec describes \<^verbatim>\<open>evaluate\<close> in three steps. Interval key derivation,
  "derive(seed, t0, t1)": "fold this integer into the seed to produce an intermediate
  token; reinterpret t1 similarly and fold it into the intermediate token".
  Leaf sampling, "sample(sub_seed, shape, dtype, t0, t1)": "draws one standard-normal random
  array of the given shape and dtype" and "rescales by sqrt(t1 - t0) cast to the leaf's
  dtype". In between the seed is split into "one independent sub-seed per leaf". These
  definitions work on the list of leaves; \<open>evaluate\<close> above works on trees.
\<close>

definition spec_derive :: "('k, 'v) backend \<Rightarrow> 'k \<Rightarrow> real_scalar \<Rightarrow> real_scalar \<Rightarrow> 'k" where
  "spec_derive b seed t0 t1 =
     fold_in b (fold_in b seed (force_bitcast_convert_type t0)) (force_bitcast_convert_type t1)"

definition spec_sample ::
  "('k, 'v) backend \<Rightarrow> 'k \<Rightarrow> nat list \<Rightarrow> dtype \<Rightarrow> real_scalar \<Rightarrow> real_scalar \<Rightarrow> 'v array"
where
  "spec_sample b sub_seed shp d t0 t1 =
     array_times b (jr_normal b sub_seed shp d) (astype b (jnp_sqrt b (sub_scalar b t1 t0)) d)"

definition spec_leaves ::
  "('k, 'v) backend \<Rightarrow> 'k unsafe_brownian_path \<Rightarrow> real_scalar \<Rightarrow> real_scalar \<Rightarrow> 'v array list"
where
  "spec_leaves b p t0 t1 =
     (let seed' = spec_derive b (key p) t0 t1;
          leaves = tree_leaves (shape p);
          sub_seeds = jr_split b seed' (length leaves)
      in map (\<lambda>(sub_seed, leaf). spec_sample b sub_seed (sds_shape leaf) (sds_dtype leaf) t0 t1)
           (zip sub_seeds leaves))"

subsection \<open>Two small backends\<close>

text \<open>
  A small backend, a platform and a sampler on which the theorems below are instantiated.
  The platform has 64-bit dtypes disabled. Keys are counters, values are integers, and
  subtraction keeps the sign of the difference (\<open>-1.0\<close>, \<open>+0.0\<close> or \<open>1.0\<close>); the square
  root of a zero is \<open>0\<close>. The descriptor is scenario 4 of the spec.
\<close>

definition test_platform :: platform where
  "test_platform = \<lparr> enable_x64 = False \<rparr>"

definition test_backend :: "(nat, int) backend" where
  "test_backend =
     \<lparr> config = test_platform,
       fold_in = (\<lambda>k w. 31 * k + unat w),
       split_key = (\<lambda>k n i. k * n + i + 1),
       normal_val = (\<lambda>k s d i. int k + int i),
       f32_of_int = (\<lambda>i. if i < 0 then 0xBF800000 else 0x3F800000),
       f32_sub = (\<lambda>x y. if f32_lt x y then 0xBF800000 else if f32_lt y x then 0x3F800000 else 0),
       sqrt_val = (\<lambda>s. case s of PyInt i \<Rightarrow> (if i = 0 then 0 else 1)
                              | F32 w \<Rightarrow> (if f32_is_zero w then 0 else 1)),
       cast_val = (\<lambda>v d. v),
       cast_nan = (\<lambda>d. 0),
       mul_val = (\<lambda>x y. Val (x * y)) \<rparr>"

text \<open>
  The same backend with subnormal numbers flushed to zero, as processors do in their
  flush-to-zero and denormals-are-zero modes: operands below the smallest normal number
  \<open>0x00800000\<close> are read as zeros, and their difference is a zero.
\<close>

definition flushing_backend :: "(nat, int) backend" where
  "flushing_backend =
     test_backend \<lparr> f32_sub :=
       (\<lambda>x y. if f32_magnitude x < 0x00800000 \<and> f32_magnitude y < 0x00800000
               then (if bit x 31 \<and> \<not> bit y 31 then 0x80000000 else 0)
               else f32_sub test_backend x y) \<rparr>"

definition test_descriptor :: "shape_dtype_struct pytree" where
  "test_descriptor =
     Node (DictNode [''a'', ''b''])
       [Leaf \<lparr> sds_shape = [2], sds_dtype = Float32 \<rparr>,
        Leaf \<lparr> sds_shape = [4], sds_dtype = Float32 \<rparr>]"

definition test_path :: "nat unsafe_brownian_path" where
  "test_path = \<lparr> shape = test_descriptor, key = 7 \<rparr>"

text \<open>
  The array of a leaf's shape and of the canonical form of its dtype all of whose entries
  are NaN.
\<close>

definition nan_array :: "platform \<Rightarrow> shape_dtype_struct \<Rightarrow> 'v array" where
  "nan_array pf s =
     \<lparr> arr_shape = sds_shape s, arr_dtype = canonicalize_dtype pf (sds_dtype s),
       arr_data = replicate (prod_list (sds_shape s)) NaN \<rparr>"

section \<open>Properties\<close>

subsection \<open>Trees\<close>

lemma tree_leaves_map_pytree: "tree_leaves (map_pytree f t) = map f (tree_leaves t)"
  by (induction t) (simp_all add: map_concat comp_def cong: map_cong)

lemma length_leaves_structure: "length (tree_leaves (tree_structure t)) = length (tree_leaves t)"
  by (simp add: tree_structure_def tree_leaves_map_pytree)

lemma tree_structure_simps [simp]:
  "tree_structure (Leaf x) = Leaf ()"
  "tree_structure (Node k cs) = Node k (map tree_structure cs)"
  by (simp_all add: tree_structure_def)

text \<open>
  Filling a structure with exactly as many leaves as it has succeeds, consumes them all,
  and gives a tree of that structure whose leaves are the given ones, in order.
\<close>

lemma unflatten_children_fill:
  assumes IH: "\<And>c (xs::'a list) ys. c \<in> set cs \<Longrightarrow> length xs = length (tree_leaves c) \<Longrightarrow>
      \<exists>t. unflatten_from c (xs @ ys) = Some (t, ys) \<and> tree_structure t = c \<and> tree_leaves t = xs"
  shows "length (xs::'a list) = length (concat (map tree_leaves cs)) \<Longrightarrow>
      \<exists>rs. unflatten_children cs (xs @ ys) = Some (rs, ys) \<and> map tree_structure rs = cs
           \<and> concat (map tree_leaves rs) = xs"
  using IH
proof (induction cs arbitrary: xs)
  case Nil
  then show ?case by simp
next
  case (Cons c cs)
  let ?n = "length (tree_leaves c)"
  have len1: "length (take ?n xs) = ?n" using Cons.prems(1) by simp
  have len2: "length (drop ?n xs) = length (concat (map tree_leaves cs))"
    using Cons.prems(1) by simp
  obtain t where t: "unflatten_from c (take ?n xs @ (drop ?n xs @ ys)) = Some (t, drop ?n xs @ ys)"
      "tree_structure t = c" "tree_leaves t = take ?n xs"
    using Cons.prems(2)[of c "take ?n xs" "drop ?n xs @ ys"] len1 by auto
  obtain rs where rs: "unflatten_children cs (drop ?n xs @ ys) = Some (rs, ys)"
      "map tree_structure rs = cs" "concat (map tree_leaves rs) = drop ?n xs"
    using Cons.IH[OF len2] Cons.prems(2) by auto
  have "take ?n xs @ (drop ?n xs @ ys) = xs @ ys" by simp
  then have "unflatten_from c (xs @ ys) = Some (t, drop ?n xs @ ys)" using t(1) by metis
  then show ?case using rs t by simp
qed

lemma unflatten_from_fill:
  "length xs = length (tree_leaves td) \<Longrightarrow>
     \<exists>t. unflatten_from td (xs @ ys) = Some (t, ys) \<and> tree_structure t = td \<and> tree_leaves t = xs"
proof (induction td arbitrary: xs ys)
  case (Leaf u)
  then show ?case by (cases xs) auto
next
  case (Node k cs)
  have "\<exists>rs. unflatten_children cs (xs @ ys) = Some (rs, ys) \<and> map tree_structure rs = cs
           \<and> concat (map tree_leaves rs) = xs"
    using Node.prems Node.IH by (intro unflatten_children_fill) auto
  then show ?case by auto
qed

lemma tree_unflatten_fill:
  assumes "length xs = length (tree_leaves td)"
  shows "\<exists>t. tree_unflatten td xs = Inr t \<and> tree_structure t = td \<and> tree_leaves t = xs"
  using unflatten_from_fill[OF assms, of "[]"] by (auto simp: tree_unflatten_def)

lemma length_jr_split: "length (jr_split b k n) = n"
  by (simp add: jr_split_def)

lemma split_by_tree_keys:
  "\<exists>ks. split_by_tree b k t = Inr ks \<and> tree_structure ks = tree_structure t
        \<and> tree_leaves ks = jr_split b k (length (tree_leaves t))"
  unfolding split_by_tree_def Let_def
  using tree_unflatten_fill[of "jr_split b k (length (tree_leaves (tree_structure t)))" "tree_structure t"]
  by (simp add: jr_split_def length_leaves_structure)

text \<open>Mapping over two trees of one structure succeeds and works leaf by leaf.\<close>

lemma tree_map_matching:
  "(tree_structure t = tree_structure u \<longrightarrow>
      (\<exists>r. tree_map f t u = Inr r \<and> tree_structure r = tree_structure u
           \<and> tree_leaves r = map (\<lambda>(x, y). f x y) (zip (tree_leaves t) (tree_leaves u))))"
  "(map tree_structure ts = map tree_structure us \<longrightarrow>
      (\<exists>rs. tree_map_children f ts us = Inr rs \<and> map tree_structure rs = map tree_structure us
           \<and> concat (map tree_leaves rs)
               = map (\<lambda>(x, y). f x y) (zip (concat (map tree_leaves ts)) (concat (map tree_leaves us)))))"
proof (induction f t u and f ts us rule: tree_map_tree_map_children.induct)
  case (6 f c cs d ds)
  show ?case
  proof
    assume eq: "map tree_structure (c # cs) = map tree_structure (d # ds)"
    then have len: "length (tree_leaves c) = length (tree_leaves d)"
      by (metis length_leaves_structure list.inject list.simps(9))
    from eq 6 show "\<exists>rs. tree_map_children f (c # cs) (d # ds) = Inr rs \<and>
         map tree_structure rs = map tree_structure (d # ds) \<and>
         concat (map tree_leaves rs) =
         map (\<lambda>(x, y). f x y) (zip (concat (map tree_leaves (c # cs))) (concat (map tree_leaves (d # ds))))"
      using len by (auto simp: zip_append)
  qed
qed auto

subsection \<open>Evaluation, leaf by leaf\<close>

lemma evaluate_two:
  "\<exists>r. evaluate b p t0 (Some t1) l = Inr r \<and> tree_structure r = tree_structure (shape p)
       \<and> tree_leaves r =
           map (\<lambda>(k, s). evaluate_leaf b t0 t1 k s)
             (zip (jr_split b (spec_derive b (key p) t0 t1) (length (tree_leaves (shape p))))
                  (tree_leaves (shape p)))"
proof -
  let ?k = "spec_derive b (key p) t0 t1"
  obtain ks where ks: "split_by_tree b ?k (shape p) = Inr ks"
      "tree_structure ks = tree_structure (shape p)"
      "tree_leaves ks = jr_split b ?k (length (tree_leaves (shape p)))"
    using split_by_tree_keys[of b ?k "shape p"] by blast
  obtain r where r: "tree_map (\<lambda>k s. evaluate_leaf b t0 t1 k s) ks (shape p) = Inr r"
      "tree_structure r = tree_structure (shape p)"
      "tree_leaves r = map (\<lambda>(x, y). evaluate_leaf b t0 t1 x y) (zip (tree_leaves ks) (tree_leaves (shape p)))"
    using tree_map_matching(1)[of ks "shape p" "\<lambda>k s. evaluate_leaf b t0 t1 k s"] ks(2) by blast
  have "evaluate b p t0 (Some t1) l = Inr r"
    using ks(1) r(1) by (simp add: evaluate_def spec_derive_def nondifferentiable_def)
  then show ?thesis using r ks(3) by simp
qed

lemma evaluate_one: "evaluate b p t None l = evaluate b p (PyInt 0) (Some t) l"
  by (simp add: evaluate_def)

lemma evaluate_returns: "\<exists>r. evaluate b p t0 t1 l = Inr r"
proof (cases t1)
  case None
  then show ?thesis using evaluate_two[of b p "PyInt 0" t0 l] by (auto simp: evaluate_one)
next
  case (Some t)
  then show ?thesis using evaluate_two[of b p t0 t l] by auto
qed

lemma evaluate_leaf_int_zero:
  "evaluate_leaf b (PyInt 0) (F32 w) = evaluate_leaf b (F32 0) (F32 w)"
  by (rule ext)+ (simp add: evaluate_leaf_def)

lemma init_test_path: "init test_platform (ShapeTree test_descriptor) 7 = Inr test_path"
  by (simp add: init_def test_descriptor_def test_path_def)

lemma evaluate_leaf_shape [simp]: "arr_shape (evaluate_leaf b t0 t1 k s) = sds_shape s"
  and evaluate_leaf_dtype [simp]:
    "arr_dtype (evaluate_leaf b t0 t1 k s) = canonicalize_dtype (config b) (sds_dtype s)"
  and evaluate_leaf_length [simp]:
    "length (arr_data (evaluate_leaf b t0 t1 k s)) = prod_list (sds_shape s)"
  by (simp_all add: evaluate_leaf_def array_times_def jr_normal_def Let_def)

lemma kind_canonicalize [simp]:
  "is_floating (canonicalize_dtype pf d) = is_floating d"
  "is_complexfloating (canonicalize_dtype pf d) = is_complexfloating d"
  "is_integer (canonicalize_dtype pf d) = is_integer d"
  by (cases d; simp add: canonicalize_dtype_def)+

lemma issubdtype_canonicalize [simp]:
  "issubdtype (canonicalize_dtype pf d) c = issubdtype d c"
  by (cases c) simp_all

lemma canonicalize_dtype_same:
  "enable_x64 pf \<or> \<not> is_64bit d \<Longrightarrow> canonicalize_dtype pf d = d"
  by (cases d) (auto simp: canonicalize_dtype_def)

lemma map_zip_snd:
  "length ks = length ss \<Longrightarrow> map (\<lambda>(k, s). g s) (zip ks ss) = map g ss"
  by (induction ks ss rule: list_induct2) simp_all

subsection \<open>Construction\<close>

lemma init_Inr_iff:
  "(init pf d k = Inr p) =
     (p = \<lparr> shape = (if is_tuple_of_ints d
                      then Leaf \<lparr> sds_shape = tuple_items d, sds_dtype = default_floating_dtype pf \<rparr>
                      else given_tree d), key = k \<rparr> \<and>
      list_all (\<lambda>x. issubdtype (sds_dtype x) Inexact) (tree_leaves (shape p)))"
  by (auto simp: init_def Let_def list_ex_iff list_all_iff)

lemma init_Inl_iff:
  "(init pf d k = Inl e) =
     (e = dtype_error \<and> (\<exists>t. d = ShapeTree t \<and> t \<noteq> Node TupleNode [] \<and>
        list_ex (\<lambda>x. \<not> issubdtype (sds_dtype x) Inexact) (tree_leaves t)))"
  by (cases d) (auto simp: init_def Let_def default_floating_dtype_def)

lemma offending_leaves_empty:
  "(offending_leaves t = []) = list_all (\<lambda>x. issubdtype (sds_dtype x) Inexact) (tree_leaves t)"
  unfolding offending_leaves_def filter_empty_conv list_all_iff
  by (auto simp: all_set_conv_all_nth)

subsection \<open>Not-a-number\<close>

lemma elem_mul_NaN [simp]: "elem_mul b x NaN = NaN"
  by (cases x) simp_all

lemma evaluate_leaf_nan:
  assumes "scalar_negative (sub_scalar b t1 t0)" and "issubdtype (sds_dtype s) Inexact"
  shows "evaluate_leaf b t0 t1 k s = nan_array (config b) s"
  using assms
  by (simp add: evaluate_leaf_def array_times_def jr_normal_def jnp_sqrt_def nan_array_def
      map_replicate_const comp_def Let_def)

text \<open>
  Every query returns a tree of the stored descriptor's structure; leaf by leaf the shape
  is the declared one, the dtype is the canonical form of the declared one, and the number
  of entries is the product of the dimensions.
\<close>

lemma evaluate_fidelity:
  "\<exists>r. evaluate b p t0 t1 l = Inr r \<and>
        tree_structure r = tree_structure (shape p) \<and>
        map arr_shape (tree_leaves r) = map sds_shape (tree_leaves (shape p)) \<and>
        map arr_dtype (tree_leaves r)
          = map (\<lambda>s. canonicalize_dtype (config b) (sds_dtype s)) (tree_leaves (shape p)) \<and>
        map (\<lambda>a. length (arr_data a)) (tree_leaves r)
          = map (\<lambda>s. prod_list (sds_shape s)) (tree_leaves (shape p))"
proof -
  have two: "\<exists>r. evaluate b p u0 (Some u1) l = Inr r \<and>
        tree_structure r = tree_structure (shape p) \<and>
        map arr_shape (tree_leaves r) = map sds_shape (tree_leaves (shape p)) \<and>
        map arr_dtype (tree_leaves r)
          = map (\<lambda>s. canonicalize_dtype (config b) (sds_dtype s)) (tree_leaves (shape p)) \<and>
        map (\<lambda>a. length (arr_data a)) (tree_leaves r)
          = map (\<lambda>s. prod_list (sds_shape s)) (tree_leaves (shape p))" for u0 u1
  proof -
    let ?ks = "jr_split b (spec_derive b (key p) u0 u1) (length (tree_leaves (shape p)))"
    have len: "length ?ks = length (tree_leaves (shape p))" by (simp add: length_jr_split)
    obtain r where r: "evaluate b p u0 (Some u1) l = Inr r"
        "tree_structure r = tree_structure (shape p)"
        "tree_leaves r = map (\<lambda>(k, s). evaluate_leaf b u0 u1 k s) (zip ?ks (tree_leaves (shape p)))"
      using evaluate_two[of b p u0 u1 l] by blast
    have "map arr_shape (tree_leaves r) = map (\<lambda>(k, s). sds_shape s) (zip ?ks (tree_leaves (shape p)))"
      by (simp add: r(3) case_prod_unfold)
    moreover have "map arr_dtype (tree_leaves r)
        = map (\<lambda>(k, s). canonicalize_dtype (config b) (sds_dtype s)) (zip ?ks (tree_leaves (shape p)))"
      by (simp add: r(3) case_prod_unfold)
    moreover have "map (\<lambda>a. length (arr_data a)) (tree_leaves r)
        = map (\<lambda>(k, s). prod_list (sds_shape s)) (zip ?ks (tree_leaves (shape p)))"
      by (simp add: r(3) case_prod_unfold)
    ultimately show ?thesis using r(1,2) by (simp add: map_zip_snd[OF len])
  qed
  show ?thesis
  proof (cases t1)
    case None
    then show ?thesis using two[of "PyInt 0" t0] by (simp add: evaluate_one)
  next
    case (Some u)
    then show ?thesis using two[of t0 u] by simp
  qed
qed

text \<open>
  A query whose computed difference \<open>t1 - t0\<close> is negative, on a sampler whose leaf dtypes
  are all inexact, returns the NaN array at every leaf.
\<close>

lemma evaluate_nan:
  assumes "scalar_negative (sub_scalar b t1 t0)"
    and "list_all (\<lambda>s. issubdtype (sds_dtype s) Inexact) (tree_leaves (shape p))"
  shows "\<exists>r. evaluate b p t0 (Some t1) l = Inr r \<and>
              tree_structure r = tree_structure (shape p) \<and>
              tree_leaves r = map (nan_array (config b)) (tree_leaves (shape p))"
proof -
  let ?ks = "jr_split b (spec_derive b (key p) t0 t1) (length (tree_leaves (shape p)))"
  have inexact: "\<forall>s \<in> set (tree_leaves (shape p)). issubdtype (sds_dtype s) Inexact"
    using assms(2) by (simp add: list_all_iff)
  have "map (\<lambda>(k, s). evaluate_leaf b t0 t1 k s) (zip ?ks (tree_leaves (shape p)))
        = map (\<lambda>(k, s). nan_array (config b) s) (zip ?ks (tree_leaves (shape p)))"
    using inexact assms(1)
    by (intro map_cong refl) (auto simp: evaluate_leaf_nan dest: set_zip_rightD)
  also have "\<dots> = map (nan_array (config b)) (tree_leaves (shape p))"
    by (rule map_zip_snd) (simp add: length_jr_split)
  finally show ?thesis using evaluate_two[of b p t0 t1 l] by auto
qed

subsection \<open>Bit patterns\<close>

lemma magnitude_take_bit: "f32_magnitude w = take_bit 31 w"
proof -
  have "(0x7FFFFFFF :: 32 word) = mask 31" by (simp add: mask_eq_exp_minus_1)
  then show ?thesis by (simp add: f32_magnitude_def take_bit_eq_mask)
qed

lemma word_from_sign_magnitude:
  fixes a b :: "32 word"
  assumes "f32_magnitude a = f32_magnitude b" and "bit a 31 = bit b 31"
  shows "a = b"
proof (rule bit_word_eqI)
  fix n assume n: "n < LENGTH(32)"
  show "bit a n = bit b n"
  proof (cases "n = 31")
    case True
    then show ?thesis using assms(2) by simp
  next
    case False
    then have "n < 31" using n by simp
    moreover have "bit (take_bit 31 a) n = bit (take_bit 31 b) n"
      using assms(1) by (simp add: magnitude_take_bit)
    ultimately show ?thesis by (simp add: bit_take_bit_iff)
  qed
qed

text \<open>Floats that compare equal have the same bits, unless both are zeros.\<close>

lemma f32_eq_same_bits:
  assumes "f32_eq a b" and "\<not> (f32_is_zero a \<and> f32_is_zero b)"
  shows "a = b"
proof -
  have keys: "f32_order_key a = f32_order_key b" using assms(1) by (simp add: f32_eq_def)
  have nonneg: "0 \<le> uint (f32_magnitude a)" "0 \<le> uint (f32_magnitude b)" by simp_all
  show ?thesis
  proof (cases "bit a 31 = bit b 31")
    case True
    then have "uint (f32_magnitude a) = uint (f32_magnitude b)"
      using keys by (auto simp: f32_order_key_def split: if_splits)
    then have "f32_magnitude a = f32_magnitude b" by (rule word_uint_eqI)
    then show ?thesis using True by (rule word_from_sign_magnitude)
  next
    case False
    then have "uint (f32_magnitude a) = - uint (f32_magnitude b)"
      using keys by (auto simp: f32_order_key_def split: if_splits)
    with nonneg have "uint (f32_magnitude a) = 0 \<and> uint (f32_magnitude b) = 0"
      by linarith
    then have "f32_is_zero a \<and> f32_is_zero b"
      by (simp add: f32_is_zero_def uint_0_iff)
    then show ?thesis using assms(2) by simp
  qed
qed

subsection \<open>The claims\<close>

text \<open>
  C1 (determinism). Two samplers constructed from the same descriptor and the same seed
  return, for the same endpoints, the same result: both calls return (neither raises) and
  the two structured values are equal.
\<close>

theorem C1_determinism:
  assumes "init pf d s = Inr p" and "init pf d s = Inr p'"
  shows "\<exists>r. evaluate b p t0 t1 l = Inr r \<and> evaluate b p' t0 t1 l = Inr r"
proof -
  have "p = p'" using assms by simp
  then show ?thesis using evaluate_returns[of b p t0 t1 l] by auto
qed

theorem C1_determinism_witness:
  "init test_platform (ShapeTree test_descriptor) 7 = Inr test_path \<and>
   (\<exists>r. evaluate test_backend test_path (F32 0) (Some (F32 0x3F800000)) True = Inr r \<and>
        evaluate test_backend test_path (F32 0) (Some (F32 0x3F800000)) True = Inr r)"
  using C1_determinism[OF init_test_path init_test_path, of test_backend "F32 0" "Some (F32 0x3F800000)" True]
    init_test_path by simp

text \<open>
  C2 (the algorithm of evaluate). A query \<open>(t0, t1)\<close> returns a tree of the descriptor's
  structure whose leaves are, in order, the spec's samples: the key is the base key with
  the bits of \<open>t0\<close> and then the bits of \<open>t1\<close> folded in, it is split into one sub-key per
  leaf, and each leaf is the normal draw of the leaf's shape and dtype from its sub-key
  times the square root of \<open>t1 - t0\<close> converted to the leaf's dtype.
\<close>

theorem C2_algorithm:
  "\<exists>r. evaluate b p t0 (Some t1) l = Inr r \<and>
        tree_structure r = tree_structure (shape p) \<and>
        tree_leaves r = spec_leaves b p t0 t1"
  using evaluate_two[of b p t0 t1 l]
  by (simp add: spec_leaves_def spec_sample_def evaluate_leaf_def Let_def)

theorem C2_algorithm_witness:
  "\<exists>r. evaluate test_backend test_path (F32 0) (Some (F32 0x3F800000)) True = Inr r \<and>
        tree_structure r = Node (DictNode [''a'', ''b'']) [Leaf (), Leaf ()] \<and>
        tree_leaves r =
          [\<lparr> arr_shape = [2], arr_dtype = Float32,
             arr_data = [Val 2130719887, Val 2130719888] \<rparr>,
           \<lparr> arr_shape = [4], arr_dtype = Float32,
             arr_data = [Val 2130719888, Val 2130719889, Val 2130719890, Val 2130719891] \<rparr>]"
proof -
  have seed: "spec_derive test_backend (key test_path) (F32 0) (F32 0x3F800000) = 1065359943"
    by (simp add: spec_derive_def test_backend_def test_path_def)
  have leaves: "tree_leaves (shape test_path) =
      [\<lparr> sds_shape = [2], sds_dtype = Float32 \<rparr>, \<lparr> sds_shape = [4], sds_dtype = Float32 \<rparr>]"
    by (simp add: test_path_def test_descriptor_def)
  have keys: "jr_split test_backend 1065359943 (Suc (Suc 0)) = [2130719887, 2130719888]"
    by (simp add: jr_split_def test_backend_def upt_rec)
  have root: "jnp_sqrt test_backend (F32 (f32_sub test_backend 0x3F800000 0)) = Val 1"
    by (simp add: jnp_sqrt_def test_backend_def
        f32_negative_def f32_lt_def f32_is_nan_def f32_is_zero_def f32_magnitude_def
        f32_order_key_def)
  have cast: "cast_val test_backend v d = v" for v d
    by (simp add: test_backend_def)
  have draw2: "jr_normal test_backend 2130719887 [2] Float32 =
      \<lparr> arr_shape = [2], arr_dtype = Float32, arr_data = [Val 2130719887, Val 2130719888] \<rparr>"
    by (simp add: jr_normal_def test_backend_def test_platform_def canonicalize_dtype_def
        upt_rec Let_def)
  have draw4: "jr_normal test_backend 2130719888 [4] Float32 =
      \<lparr> arr_shape = [4], arr_dtype = Float32,
        arr_data = [Val 2130719888, Val 2130719889, Val 2130719890, Val 2130719891] \<rparr>"
    by (simp add: jr_normal_def test_backend_def test_platform_def canonicalize_dtype_def
        upt_rec Let_def)
  have times: "mul_val test_backend x 1 = Val x" for x
    by (simp add: test_backend_def)
  have "spec_leaves test_backend test_path (F32 0) (F32 0x3F800000) =
          [\<lparr> arr_shape = [2], arr_dtype = Float32,
             arr_data = [Val 2130719887, Val 2130719888] \<rparr>,
           \<lparr> arr_shape = [4], arr_dtype = Float32,
             arr_data = [Val 2130719888, Val 2130719889, Val 2130719890, Val 2130719891] \<rparr>]"
    by (simp add: spec_leaves_def Let_def seed leaves keys spec_sample_def root cast draw2 draw4
        array_times_def times)
  then show ?thesis
    using C2_algorithm[of test_backend test_path "F32 0" "F32 0x3F800000" True]
    by (simp add: test_path_def test_descriptor_def)
qed

text \<open>
  C3 (construction failure), as the code has it. The check is \<^verbatim>\<open>issubdtype(dtype, jnp.inexact)\<close>,
  and the inexact kinds are the floating and the complex ones. So: a tuple of integers always
  constructs; a descriptor tree raises, in the constructor and so before any query, exactly
  when some leaf's dtype is not inexact; and a tree whose leaf dtypes are all floating
  constructs.
\<close>

theorem C3_construction:
  "(\<exists>p. init pf (IntTuple ds) k = Inr p) \<and>
   ((\<exists>e. init pf (ShapeTree t) k = Inl e) =
      list_ex (\<lambda>x. \<not> issubdtype (sds_dtype x) Inexact) (tree_leaves t)) \<and>
   (list_all (\<lambda>x. issubdtype (sds_dtype x) Floating) (tree_leaves t) \<longrightarrow>
      (\<exists>p. init pf (ShapeTree t) k = Inr p))"
  by (auto simp: init_def Let_def default_floating_dtype_def list_ex_iff list_all_iff)

theorem C3_construction_witness:
  "(\<exists>p. init test_platform (IntTuple [3]) (7::nat) = Inr p) \<and>
   ((\<exists>e. init test_platform (ShapeTree test_descriptor) (7::nat) = Inl e) =
      list_ex (\<lambda>x. \<not> issubdtype (sds_dtype x) Inexact) (tree_leaves test_descriptor)) \<and>
   list_all (\<lambda>x. issubdtype (sds_dtype x) Floating) (tree_leaves test_descriptor) \<and>
   (\<exists>p. init test_platform (ShapeTree test_descriptor) (7::nat) = Inr p)"
proof -
  have h: "list_all (\<lambda>x. issubdtype (sds_dtype x) Floating) (tree_leaves test_descriptor)"
    by (simp add: test_descriptor_def)
  show ?thesis
    using C3_construction[of test_platform "[3]" "7::nat" test_descriptor] h by blast
qed

text \<open>
  The claim as stated fails: the second leaf below has a complex dtype, which is not a
  floating-point kind, and construction succeeds.
\<close>

theorem C3_counterexample:
  "list_ex (\<lambda>x. \<not> issubdtype (sds_dtype x) Floating)
     (tree_leaves (Node TupleNode [Leaf \<lparr> sds_shape = [2], sds_dtype = Float32 \<rparr>,
                                   Leaf \<lparr> sds_shape = [3], sds_dtype = Complex128 \<rparr>])) \<and>
   init test_platform
     (ShapeTree (Node TupleNode [Leaf \<lparr> sds_shape = [2], sds_dtype = Float32 \<rparr>,
                                 Leaf \<lparr> sds_shape = [3], sds_dtype = Complex128 \<rparr>])) (7::nat)
   = Inr \<lparr> shape = Node TupleNode [Leaf \<lparr> sds_shape = [2], sds_dtype = Float32 \<rparr>,
                                   Leaf \<lparr> sds_shape = [3], sds_dtype = Complex128 \<rparr>],
           key = 7 \<rparr>"
  by (simp add: init_def)

text \<open>
  C4 (single-argument form). With \<^verbatim>\<open>t1\<close> omitted, \<open>evaluate t\<close> is \<open>evaluate 0 t\<close> for the
  integer \<open>0\<close>; and for a float \<open>t\<close> (such as \<open>0.5\<close>) it is also \<open>evaluate 0.0 t\<close>, since
  the integer \<open>0\<close> and the float \<open>+0.0\<close> have the same bits and the same difference from
  \<open>t\<close>.
\<close>

theorem C4_single_argument:
  "evaluate b p t None l = evaluate b p (PyInt 0) (Some t) l \<and>
   evaluate b p (F32 w) None l = evaluate b p (F32 0) (Some (F32 w)) l"
  by (simp add: evaluate_def nondifferentiable_def evaluate_leaf_int_zero cong: sum.case_cong)

theorem C4_single_argument_witness:
  "evaluate test_backend test_path (F32 0x3F000000) None True
     = evaluate test_backend test_path (PyInt 0) (Some (F32 0x3F000000)) True \<and>
   evaluate test_backend test_path (F32 0x3F000000) None True
     = evaluate test_backend test_path (F32 0) (Some (F32 0x3F000000)) True"
  using C4_single_argument[of test_backend test_path "F32 0x3F000000" True "0x3F000000"] .

text \<open>
  C5 (reversed interval), as the code has it. The square root is taken of the difference
  \<open>t1 - t0\<close> that the backend computes. Whenever that difference is negative, a query on
  a constructed sampler raises nothing: it returns a tree of the descriptor's structure in
  which every leaf is the array of the declared shape, of the canonical form of the
  declared dtype, with every entry NaN. The dtype check of the constructor is what keeps
  the NaN a NaN after the conversion to the leaf's dtype.
\<close>

theorem C5_reversed_interval:
  assumes "init pf d k = Inr p" and "scalar_negative (sub_scalar b t1 t0)"
  shows "\<exists>r. evaluate b p t0 (Some t1) l = Inr r \<and>
              tree_structure r = tree_structure (shape p) \<and>
              tree_leaves r = map (nan_array (config b)) (tree_leaves (shape p))"
proof -
  have "list_all (\<lambda>s. issubdtype (sds_dtype s) Inexact) (tree_leaves (shape p))"
    using assms(1) unfolding init_Inr_iff by (rule conjunct2)
  with assms(2) show ?thesis by (rule evaluate_nan)
qed

theorem C5_reversed_interval_witness:
  "init test_platform (ShapeTree test_descriptor) 7 = Inr test_path \<and>
   scalar_negative (sub_scalar test_backend (F32 0x3F000000) (F32 0x3F800000)) \<and>
   (\<exists>r. evaluate test_backend test_path (F32 0x3F800000) (Some (F32 0x3F000000)) True = Inr r \<and>
        tree_structure r = tree_structure (shape test_path) \<and>
        tree_leaves r = map (nan_array (config test_backend)) (tree_leaves (shape test_path)))"
proof -
  have h: "scalar_negative (sub_scalar test_backend (F32 0x3F000000) (F32 0x3F800000))"
    by (simp add: test_backend_def f32_negative_def f32_lt_def f32_is_nan_def
        f32_magnitude_def f32_order_key_def)
  show ?thesis
    using C5_reversed_interval[OF init_test_path h, of True] init_test_path h by blast
qed

text \<open>
  The claim as stated fails where the difference underflows. On the backend that flushes
  subnormal numbers to zero, take \<open>t1 = 0.0\<close> and \<open>t0\<close> the smallest positive float (bits
  \<open>1\<close>): \<open>t1 < t0\<close>, the computed difference is a zero, its square root is a zero, and every
  entry of every leaf is a number.
\<close>

theorem C5_counterexample:
  "scalar_lt flushing_backend (F32 0) (F32 1) \<and>
   init test_platform (ShapeTree test_descriptor) 7 = Inr test_path \<and>
   (\<exists>r. evaluate flushing_backend test_path (F32 1) (Some (F32 0)) True = Inr r \<and>
        tree_leaves r =
          [\<lparr> arr_shape = [2], arr_dtype = Float32, arr_data = [Val 0, Val 0] \<rparr>,
           \<lparr> arr_shape = [4], arr_dtype = Float32,
             arr_data = [Val 0, Val 0, Val 0, Val 0] \<rparr>])"
proof -
  have lt: "scalar_lt flushing_backend (F32 0) (F32 1)"
    by (simp add: f32_lt_def f32_is_nan_def f32_magnitude_def f32_order_key_def)
  have diff: "f32_sub flushing_backend 0 1 = 0"
    by (simp add: flushing_backend_def f32_magnitude_def)
  have root: "jnp_sqrt flushing_backend (F32 0) = Val 0"
    by (simp add: jnp_sqrt_def flushing_backend_def test_backend_def f32_negative_def f32_lt_def
        f32_is_nan_def f32_is_zero_def f32_magnitude_def f32_order_key_def)
  have conf: "config flushing_backend = test_platform"
    by (simp add: flushing_backend_def test_backend_def)
  have cast: "cast_val flushing_backend v dt = v" for v dt
    by (simp add: flushing_backend_def test_backend_def)
  have times: "mul_val flushing_backend x 0 = Val 0" for x
    by (simp add: flushing_backend_def test_backend_def)
  have leaf: "evaluate_leaf flushing_backend (F32 1) (F32 0) k s =
      \<lparr> arr_shape = sds_shape s,
        arr_dtype = canonicalize_dtype test_platform (sds_dtype s),
        arr_data = replicate (prod_list (sds_shape s)) (Val 0) \<rparr>" for k s
    by (simp add: evaluate_leaf_def diff root conf cast times array_times_def jr_normal_def
        Let_def comp_def map_replicate_const)
  let ?ks = "jr_split flushing_backend (spec_derive flushing_backend (key test_path) (F32 1) (F32 0))
               (length (tree_leaves (shape test_path)))"
  have "map (\<lambda>(k, s). evaluate_leaf flushing_backend (F32 1) (F32 0) k s)
            (zip ?ks (tree_leaves (shape test_path)))
        = map (\<lambda>s. \<lparr> arr_shape = sds_shape s,
                      arr_dtype = canonicalize_dtype test_platform (sds_dtype s),
                      arr_data = replicate (prod_list (sds_shape s)) (Val 0) \<rparr>)
            (tree_leaves (shape test_path))"
    unfolding leaf by (rule map_zip_snd) (simp add: length_jr_split)
  also have "\<dots> = [\<lparr> arr_shape = [2], arr_dtype = Float32, arr_data = [Val 0, Val 0] \<rparr>,
           \<lparr> arr_shape = [4], arr_dtype = Float32,
             arr_data = [Val 0, Val 0, Val 0, Val 0] \<rparr>]"
    by (simp add: test_path_def test_descriptor_def canonicalize_dtype_def test_platform_def
        numeral_eq_Suc)
  finally show ?thesis
    using evaluate_two[of flushing_backend test_path "F32 1" "F32 0" True] lt init_test_path
    by auto
qed

text \<open>
  C6 (shape fidelity), as the code has it. The sampler stores the descriptor it was given
  (a tuple of integers as one leaf of the default floating dtype), and every query returns
  a tree of exactly that structure whose leaves have, position by position, the declared
  shape and as many entries as the shape has. The dtype of a leaf is the canonical form of
  the declared dtype: the declared dtype itself when 64-bit dtypes are enabled or the
  declared dtype is not a 64-bit one.
\<close>

theorem C6_shape_fidelity:
  assumes "init pf d k = Inr p"
  shows "shape p = (if is_tuple_of_ints d
                    then Leaf \<lparr> sds_shape = tuple_items d, sds_dtype = default_floating_dtype pf \<rparr>
                    else given_tree d) \<and>
         (\<exists>r. evaluate b p t0 t1 l = Inr r \<and>
              tree_structure r = tree_structure (shape p) \<and>
              map arr_shape (tree_leaves r) = map sds_shape (tree_leaves (shape p)) \<and>
              map (\<lambda>a. length (arr_data a)) (tree_leaves r)
                = map (\<lambda>s. prod_list (sds_shape s)) (tree_leaves (shape p)) \<and>
              map arr_dtype (tree_leaves r)
                = map (\<lambda>s. canonicalize_dtype (config b) (sds_dtype s)) (tree_leaves (shape p)) \<and>
              (enable_x64 (config b) \<or>
               list_all (\<lambda>s. \<not> is_64bit (sds_dtype s)) (tree_leaves (shape p)) \<longrightarrow>
                 map arr_dtype (tree_leaves r) = map sds_dtype (tree_leaves (shape p))))"
proof -
  have stored: "shape p = (if is_tuple_of_ints d
                    then Leaf \<lparr> sds_shape = tuple_items d, sds_dtype = default_floating_dtype pf \<rparr>
                    else given_tree d)"
    using assms by (simp add: init_Inr_iff)
  obtain r where r: "evaluate b p t0 t1 l = Inr r"
      "tree_structure r = tree_structure (shape p)"
      "map arr_shape (tree_leaves r) = map sds_shape (tree_leaves (shape p))"
      "map arr_dtype (tree_leaves r)
         = map (\<lambda>s. canonicalize_dtype (config b) (sds_dtype s)) (tree_leaves (shape p))"
      "map (\<lambda>a. length (arr_data a)) (tree_leaves r)
         = map (\<lambda>s. prod_list (sds_shape s)) (tree_leaves (shape p))"
    using evaluate_fidelity[of b p t0 t1 l] by blast
  have "map arr_dtype (tree_leaves r) = map sds_dtype (tree_leaves (shape p))"
    if "enable_x64 (config b) \<or> list_all (\<lambda>s. \<not> is_64bit (sds_dtype s)) (tree_leaves (shape p))"
  proof -
    have "\<forall>s \<in> set (tree_leaves (shape p)).
            canonicalize_dtype (config b) (sds_dtype s) = sds_dtype s"
      using that by (auto simp: list_all_iff intro: canonicalize_dtype_same)
    then show ?thesis unfolding r(4) by (intro map_cong refl) simp
  qed
  with stored r show ?thesis by blast
qed

theorem C6_shape_fidelity_witness:
  "init test_platform (ShapeTree test_descriptor) 7 = Inr test_path \<and>
   list_all (\<lambda>s. \<not> is_64bit (sds_dtype s)) (tree_leaves (shape test_path)) \<and>
   shape test_path = test_descriptor \<and>
   (\<exists>r. evaluate test_backend test_path (F32 0) (Some (F32 0x3F800000)) True = Inr r \<and>
        tree_structure r = Node (DictNode [''a'', ''b'']) [Leaf (), Leaf ()] \<and>
        map arr_shape (tree_leaves r) = [[2], [4]] \<and>
        map (\<lambda>a. length (arr_data a)) (tree_leaves r) = [2, 4] \<and>
        map arr_dtype (tree_leaves r) = [Float32, Float32])"
proof -
  have h: "list_all (\<lambda>s. \<not> is_64bit (sds_dtype s)) (tree_leaves (shape test_path))"
    by (simp add: test_path_def test_descriptor_def)
  show ?thesis
    using C6_shape_fidelity[OF init_test_path, of test_backend "F32 0" "Some (F32 0x3F800000)" True]
      init_test_path h
    by (auto simp: test_path_def test_descriptor_def)
qed

text \<open>
  The claim as stated fails for the dtype: with 64-bit dtypes disabled, a leaf declared
  \<^verbatim>\<open>float64\<close> passes the constructor's check, and the array returned for it is
  \<^verbatim>\<open>float32\<close>.
\<close>

theorem C6_counterexample:
  "init test_platform (ShapeTree (Leaf \<lparr> sds_shape = [2], sds_dtype = Float64 \<rparr>)) 7
     = Inr \<lparr> shape = Leaf \<lparr> sds_shape = [2], sds_dtype = Float64 \<rparr>, key = 7 \<rparr> \<and>
   evaluate test_backend \<lparr> shape = Leaf \<lparr> sds_shape = [2], sds_dtype = Float64 \<rparr>, key = 7 \<rparr>
       (F32 0) (Some (F32 0x3F800000)) True
     = Inr (Leaf \<lparr> arr_shape = [2], arr_dtype = Float32,
                   arr_data = [Val 1065359944, Val 1065359945] \<rparr>)"
proof -
  have keys: "split_by_tree test_backend (1065359943::nat)
                (Leaf \<lparr> sds_shape = [2], sds_dtype = Float64 \<rparr>) = Inr (Leaf 1065359944)"
    by (simp add: split_by_tree_def tree_unflatten_def jr_split_def test_backend_def)
  have root: "jnp_sqrt test_backend (F32 (f32_sub test_backend 0x3F800000 0)) = Val 1"
    by (simp add: jnp_sqrt_def test_backend_def
        f32_negative_def f32_lt_def f32_is_nan_def f32_is_zero_def f32_magnitude_def
        f32_order_key_def)
  have draw: "jr_normal test_backend 1065359944 [2] Float64 =
      \<lparr> arr_shape = [2], arr_dtype = Float32, arr_data = [Val 1065359944, Val 1065359945] \<rparr>"
    by (simp add: jr_normal_def test_backend_def test_platform_def canonicalize_dtype_def
        upt_rec Let_def)
  have cast: "cast_val test_backend v dt = v" for v dt
    by (simp add: test_backend_def)
  have times: "mul_val test_backend x 1 = Val x" for x
    by (simp add: test_backend_def)
  have leaf: "evaluate_leaf test_backend (F32 0) (F32 0x3F800000) 1065359944
                \<lparr> sds_shape = [2], sds_dtype = Float64 \<rparr>
      = \<lparr> arr_shape = [2], arr_dtype = Float32, arr_data = [Val 1065359944, Val 1065359945] \<rparr>"
    by (simp add: evaluate_leaf_def root draw cast times array_times_def)
  have fold: "fold_in test_backend (fold_in test_backend 7 0) 0x3F800000 = 1065359943"
    by (simp add: test_backend_def)
  have "evaluate test_backend \<lparr> shape = Leaf \<lparr> sds_shape = [2], sds_dtype = Float64 \<rparr>, key = 7 \<rparr>
       (F32 0) (Some (F32 0x3F800000)) True
     = Inr (Leaf \<lparr> arr_shape = [2], arr_dtype = Float32,
                   arr_data = [Val 1065359944, Val 1065359945] \<rparr>)"
    by (simp add: evaluate_def nondifferentiable_def fold keys leaf)
  then show ?thesis by (simp add: init_def)
qed

text \<open>
  C7 (bit-level reinterpretation), amended. The integers of two floats are equal exactly
  when their bit patterns are; floats that compare equal yield the same integer unless they
  are \<open>+0.0\<close> and \<open>-0.0\<close>; and the integer is not the numeric value: \<open>1.0\<close> yields
  \<open>1065353216\<close>.
\<close>

theorem C7_bit_reinterpretation:
  "(sint (force_bitcast_convert_type (F32 a)) = sint (force_bitcast_convert_type (F32 b))) = (a = b) \<and>
   (f32_eq a b \<and> \<not> (f32_is_zero a \<and> f32_is_zero b) \<longrightarrow>
      force_bitcast_convert_type (F32 a) = force_bitcast_convert_type (F32 b)) \<and>
   sint (force_bitcast_convert_type (F32 0x3F800000)) = 1065353216"
  using f32_eq_same_bits[of a b] by (auto intro: signed_word_eqI)

theorem C7_bit_reinterpretation_witness:
  "(sint (force_bitcast_convert_type (F32 0x3F000000)) = sint (force_bitcast_convert_type (F32 0x3F000000)))
     = ((0x3F000000 :: 32 word) = 0x3F000000) \<and>
   f32_eq 0x3F000000 0x3F000000 \<and> \<not> (f32_is_zero 0x3F000000 \<and> f32_is_zero 0x3F000000) \<and>
   force_bitcast_convert_type (F32 0x3F000000) = force_bitcast_convert_type (F32 0x3F000000) \<and>
   sint (force_bitcast_convert_type (F32 0x3F800000)) = 1065353216"
proof -
  have h: "f32_eq 0x3F000000 0x3F000000 \<and> \<not> (f32_is_zero 0x3F000000 \<and> f32_is_zero 0x3F000000)"
    by (simp add: f32_eq_def f32_is_zero_def f32_is_nan_def f32_magnitude_def)
  show ?thesis
    using C7_bit_reinterpretation[of "0x3F000000" "0x3F000000"] h by blast
qed

text \<open>
  The claim as stated fails: \<open>+0.0\<close> and \<open>-0.0\<close> are equal floating-point values and
  yield the integers \<open>0\<close> and \<open>-2147483648\<close>.
\<close>

theorem C7_counterexample:
  "f32_eq 0 0x80000000 \<and>
   sint (force_bitcast_convert_type (F32 0)) = 0 \<and>
   sint (force_bitcast_convert_type (F32 0x80000000)) = - 2147483648"
  by (simp add: f32_eq_def f32_is_nan_def f32_magnitude_def f32_order_key_def)

text \<open>
  C8 (the left flag). \<^verbatim>\<open>evaluate\<close> deletes \<^verbatim>\<open>left\<close> before anything else, so the two
  values of the flag give the same result.
\<close>

theorem C8_left_ignored:
  "evaluate b p t0 t1 True = evaluate b p t0 t1 False"
  by (simp add: evaluate_def)

theorem C8_left_ignored_witness:
  "evaluate test_backend test_path (F32 0) (Some (F32 0x3F800000)) True
     = evaluate test_backend test_path (F32 0) (Some (F32 0x3F800000)) False"
  using C8_left_ignored[of test_backend test_path "F32 0" "Some (F32 0x3F800000)"] .

text \<open>
  C9 (error identification), as the code has it. Whenever construction fails, the error
  is a \<^verbatim>\<open>ValueError\<close> with one fixed message, whichever leaf is at fault; the descriptor
  then is a tree with at least one leaf that is not inexact.
\<close>

theorem C9_fixed_message:
  assumes "init pf d k = Inl e"
  shows "e = ValueError ''UnsafeBrownianPath dtypes all have to be floating-point.'' \<and>
         (\<exists>t. d = ShapeTree t \<and> offending_leaves t \<noteq> [])"
  using assms by (auto simp: init_Inl_iff dtype_error_def offending_leaves_empty list_ex_iff list_all_iff)

theorem C9_fixed_message_witness:
  "init test_platform (ShapeTree (Leaf \<lparr> sds_shape = [5], sds_dtype = Int64 \<rparr>)) (7::nat)
     = Inl dtype_error \<and>
   dtype_error = ValueError ''UnsafeBrownianPath dtypes all have to be floating-point.'' \<and>
   (\<exists>t. ShapeTree (Leaf \<lparr> sds_shape = [5], sds_dtype = Int64 \<rparr>) = ShapeTree t \<and>
        offending_leaves t \<noteq> [])"
proof -
  have h: "init test_platform (ShapeTree (Leaf \<lparr> sds_shape = [5], sds_dtype = Int64 \<rparr>)) (7::nat)
     = Inl dtype_error"
    by (simp add: init_def)
  show ?thesis using C9_fixed_message[OF h] h by simp
qed

text \<open>
  The claim as stated fails: the two descriptors below have their offending leaf at
  different positions, and the error and its message are the same.
\<close>

theorem C9_counterexample:
  "init test_platform
     (ShapeTree (Node TupleNode [Leaf \<lparr> sds_shape = [2], sds_dtype = Int32 \<rparr>,
                                 Leaf \<lparr> sds_shape = [2], sds_dtype = Float32 \<rparr>])) (7::nat)
     = Inl (ValueError ''UnsafeBrownianPath dtypes all have to be floating-point.'') \<and>
   init test_platform
     (ShapeTree (Node TupleNode [Leaf \<lparr> sds_shape = [2], sds_dtype = Float32 \<rparr>,
                                 Leaf \<lparr> sds_shape = [2], sds_dtype = Int32 \<rparr>])) (7::nat)
     = Inl (ValueError ''UnsafeBrownianPath dtypes all have to be floating-point.'') \<and>
   offending_leaves (Node TupleNode [Leaf \<lparr> sds_shape = [2], sds_dtype = Int32 \<rparr>,
                                     Leaf \<lparr> sds_shape = [2], sds_dtype = Float32 \<rparr>]) = [0] \<and>
   offending_leaves (Node TupleNode [Leaf \<lparr> sds_shape = [2], sds_dtype = Float32 \<rparr>,
                                     Leaf \<lparr> sds_shape = [2], sds_dtype = Int32 \<rparr>]) = [1]"
  by (simp add: init_def dtype_error_def offending_leaves_def upt_rec)

text \<open>
  C10 (complex dtypes are accepted). A complex dtype is not a floating-point kind, and a
  descriptor with a leaf of a complex dtype constructs without raising.
\<close>

theorem C10_complex_accepted:
  assumes "issubdtype dt ComplexFloating"
  shows "\<not> issubdtype dt Floating \<and>
         init pf (ShapeTree (Leaf \<lparr> sds_shape = s, sds_dtype = dt \<rparr>)) k
           = Inr \<lparr> shape = Leaf \<lparr> sds_shape = s, sds_dtype = dt \<rparr>, key = k \<rparr>"
  using assms by (cases dt) (simp_all add: init_def)

theorem C10_complex_accepted_witness:
  "issubdtype Complex64 ComplexFloating \<and> \<not> issubdtype Complex64 Floating \<and>
   init test_platform (ShapeTree (Leaf \<lparr> sds_shape = [3], sds_dtype = Complex64 \<rparr>)) (7::nat)
     = Inr \<lparr> shape = Leaf \<lparr> sds_shape = [3], sds_dtype = Complex64 \<rparr>, key = 7 \<rparr>"
proof -
  have h: "issubdtype Complex64 ComplexFloating" by simp
  show ?thesis using C10_complex_accepted[OF h, of test_platform "[3]" "7::nat"] h by simp
qed

end
